theory Spec2Isabelle
  imports Main "HOL-Library.Word" "HOL-Library.Signed_Division" "HOL-Library.Multiset"
begin

section \<open>Data model (main.go, lines 11-48)\<close>

text \<open>
  Go's \<open>int\<close> is taken at its width on 64-bit targets (amd64, arm64): a 64-bit two's
  complement integer. \<open>time.Duration\<close> is \<open>int64\<close> (nanoseconds) on every target.
  Both are 64-bit words here: \<open>+\<close> wraps, comparisons are the signed ones
  (\<open><s\<close>, \<open><=s\<close>), \<open>sint\<close> reads the value.

  The \<open>error\<close> interface value of a \<open>Result\<close> is \<open>None\<close> for \<open>nil\<close> and
  \<open>Some msg\<close> for any transport error.
\<close>

type_synonym go_int = "64 word"
type_synonym duration = "64 word"

record Result =
  StatusCode :: go_int
  Duration :: duration
  Error :: "string option"

record Report =
  TotalRequests :: go_int
  SuccessfulRequests :: go_int
  FailedRequests :: go_int
  TotalTime :: duration
  StatusCodes :: "go_int \<rightharpoonup> go_int"
  MinDuration :: duration
  MaxDuration :: duration
  AvgDuration :: duration




datatype go_panic = DivideByZero | MakeChanSizeOutOfRange

section \<open>The aggregation loop of Run (main.go, lines 54-57 and 93-127)\<close>

text \<open>The zero value of \<open>Result\<close>: what a composite literal leaves in the fields it omits.\<close>

definition Result_zero :: Result where
  "Result_zero = \<lparr>StatusCode = 0, Duration = 0, Error = None\<rparr>"

text \<open>
  Lines 54-57: the report starts with an empty map and \<open>MinDuration = 1<<63 - 1\<close>;
  every other field has its zero value. Line 94: \<open>totalDuration\<close> starts at zero.
\<close>

definition MaxDurationSentinel :: duration where
  "MaxDurationSentinel = 2 ^ 63 - 1"

definition Report_init :: Report where
  "Report_init =
     \<lparr>TotalRequests = 0, SuccessfulRequests = 0, FailedRequests = 0, TotalTime = 0,
      StatusCodes = Map.empty, MinDuration = MaxDurationSentinel, MaxDuration = 0,
      AvgDuration = 0\<rparr>"

text \<open>\<open>m[k]++\<close> on a Go map: a missing key reads as zero.\<close>

definition map_incr :: "(go_int \<rightharpoonup> go_int) \<Rightarrow> go_int \<Rightarrow> (go_int \<rightharpoonup> go_int)" where
  "map_incr m k = m(k \<mapsto> (case m k of None \<Rightarrow> 0 | Some c \<Rightarrow> c) + 1)"

text \<open>
  The body of the loop at lines 95-118 for one received \<open>result\<close>, on the pair of the
  report and the local \<open>totalDuration\<close>.
\<close>

definition Run_collect :: "Result \<Rightarrow> Report \<times> duration \<Rightarrow> Report \<times> duration" where
  "Run_collect result = (\<lambda>(report0, totalDuration0).
     let report1 = report0\<lparr>TotalRequests := TotalRequests report0 + 1\<rparr> in
     if Error result = None then
       let report2 = report1\<lparr>StatusCodes := map_incr (StatusCodes report1) (StatusCode result)\<rparr>;
           report3 = (if StatusCode result = 200
                      then report2\<lparr>SuccessfulRequests := SuccessfulRequests report2 + 1\<rparr>
                      else report2\<lparr>FailedRequests := FailedRequests report2 + 1\<rparr>);
           totalDuration1 = totalDuration0 + Duration result;
           report4 = (if Duration result <s MinDuration report3
                      then report3\<lparr>MinDuration := Duration result\<rparr> else report3);
           report5 = (if MaxDuration report4 <s Duration result
                      then report4\<lparr>MaxDuration := Duration result\<rparr> else report4)
       in (report5, totalDuration1)
     else (report1\<lparr>FailedRequests := FailedRequests report1 + 1\<rparr>, totalDuration0))"

text \<open>The loop over the outcomes received from the \<open>results\<close> channel, in arrival order.\<close>

definition Run_collect_all :: "Result list \<Rightarrow> Report \<times> duration" where
  "Run_collect_all rs = fold Run_collect rs (Report_init, 0)"

text \<open>
  Go's \<open>/\<close> on \<open>int64\<close>: a run-time panic when the divisor is zero, the quotient truncated
  towards zero otherwise, wrapping for the one overflowing case (most negative value by -1).
\<close>

definition go_div :: "duration \<Rightarrow> duration \<Rightarrow> go_panic + duration" where
  "go_div a b = (if b = 0 then Inl DivideByZero else Inr (word_of_int (sint a sdiv sint b)))"

text \<open>
  Lines 120-126. \<open>elapsed\<close> is what \<open>time.Since(startTime)\<close> returns. The conversion
  \<open>time.Duration(report.SuccessfulRequests)\<close> is the identity on 64-bit words.
\<close>

definition Run_finalize :: "Report \<times> duration \<Rightarrow> duration \<Rightarrow> go_panic + Report" where
  "Run_finalize = (\<lambda>(report0, totalDuration) elapsed.
     let report1 = report0\<lparr>TotalTime := elapsed\<rparr> in
     if 0 <s SuccessfulRequests report1 then
       (case go_div totalDuration (SuccessfulRequests report1) of
          Inl p \<Rightarrow> Inl p
        | Inr q \<Rightarrow> Inr (report1\<lparr>AvgDuration := q\<rparr>))
     else Inr report1)"

text \<open>The report \<open>Run\<close> returns once it has received the outcomes \<open>rs\<close>.\<close>

definition Run_report :: "Result list \<Rightarrow> duration \<Rightarrow> go_panic + Report" where
  "Run_report rs elapsed = Run_finalize (Run_collect_all rs) elapsed"

section \<open>The worker's attempt (main.go, lines 74-89)\<close>

text \<open>
  One iteration of the worker loop once \<open>st.Client.Get\<close> has returned: \<open>got\<close> is
  \<open>Inl err\<close> for a non-nil \<open>err\<close> and \<open>Inr code\<close> for a response with status \<open>code\<close>;
  \<open>duration\<close> is the measured \<open>time.Since(start)\<close>. The value is the \<open>Result\<close> sent
  on the \<open>results\<close> channel.
\<close>

definition Run_worker_outcome :: "string + go_int \<Rightarrow> duration \<Rightarrow> Result" where
  "Run_worker_outcome got duration =
     (case got of
        Inl err \<Rightarrow> Result_zero\<lparr>Error := Some err\<rparr>
      | Inr code \<Rightarrow> Result_zero\<lparr>StatusCode := code, Duration := duration\<rparr>)"

section \<open>Vocabulary of the properties\<close>

definition transport_error :: "Result \<Rightarrow> bool" where
  "transport_error r = (Error r \<noteq> None)"

definition successful :: "Result \<Rightarrow> bool" where
  "successful r = (Error r = None \<and> StatusCode r = 200)"

definition ok_results :: "Result list \<Rightarrow> Result list" where
  "ok_results rs = filter (\<lambda>r. \<not> transport_error r) rs"

definition ok_codes :: "Result list \<Rightarrow> go_int list" where
  "ok_codes rs = map StatusCode (ok_results rs)"

text \<open>Minimum and maximum of two durations in the signed order.\<close>

definition smin :: "duration \<Rightarrow> duration \<Rightarrow> duration" where
  "smin a b = (if a <s b then a else b)"

definition smax :: "duration \<Rightarrow> duration \<Rightarrow> duration" where
  "smax a b = (if b <s a then a else b)"

section \<open>Run as a system of goroutines (main.go, lines 51-127)\<close>













section \<open>main (main.go, lines 129-149)\<close>





section \<open>Vocabulary of the properties of the goroutine system\<close>


















section \<open>Properties of one loop iteration\<close>

lemma smin_left_commute: "smin a (smin b m) = smin b (smin a m)"
  unfolding smin_def word_sless_alt
  by (simp add: word_eq_iff_signed [where 'a = int])

lemma smax_left_commute: "smax a (smax b m) = smax b (smax a m)"
  unfolding smax_def word_sless_alt
  by (simp add: word_eq_iff_signed [where 'a = int])

lemma smin_sle1: "smin a b <=s a" and smin_sle2: "smin a b <=s b"
  by (simp_all add: smin_def word_sle_eq word_sless_alt)

lemma smax_sge1: "a <=s smax a b" and smax_sge2: "b <=s smax a b"
  by (simp_all add: smax_def word_sle_eq word_sless_alt)

lemma collect_TotalRequests:
  "TotalRequests (fst (Run_collect r s)) = TotalRequests (fst s) + 1"
  by (cases s) (simp add: Run_collect_def Let_def)

lemma collect_SuccessfulRequests:
  "SuccessfulRequests (fst (Run_collect r s)) =
     SuccessfulRequests (fst s) + (if successful r then 1 else 0)"
  by (cases s) (simp add: Run_collect_def Let_def successful_def)

lemma collect_FailedRequests:
  "FailedRequests (fst (Run_collect r s)) =
     FailedRequests (fst s) + (if successful r then 0 else 1)"
  by (cases s) (simp add: Run_collect_def Let_def successful_def)

lemma collect_StatusCodes:
  "StatusCodes (fst (Run_collect r s)) =
     (if transport_error r then StatusCodes (fst s)
      else map_incr (StatusCodes (fst s)) (StatusCode r))"
  by (cases s) (simp add: Run_collect_def Let_def transport_error_def)

lemma collect_MinDuration:
  "MinDuration (fst (Run_collect r s)) =
     (if transport_error r then MinDuration (fst s)
      else smin (Duration r) (MinDuration (fst s)))"
  by (cases s) (simp add: Run_collect_def Let_def transport_error_def smin_def)

lemma collect_MaxDuration:
  "MaxDuration (fst (Run_collect r s)) =
     (if transport_error r then MaxDuration (fst s)
      else smax (Duration r) (MaxDuration (fst s)))"
  by (cases s) (simp add: Run_collect_def Let_def transport_error_def smax_def)

lemma collect_totalDuration:
  "snd (Run_collect r s) = (if transport_error r then snd s else snd s + Duration r)"
  by (cases s) (simp add: Run_collect_def Let_def transport_error_def)

lemma collect_TotalTime:
  "TotalTime (fst (Run_collect r s)) = TotalTime (fst s)"
  by (cases s) (simp add: Run_collect_def Let_def)

lemma collect_AvgDuration:
  "AvgDuration (fst (Run_collect r s)) = AvgDuration (fst s)"
  by (cases s) (simp add: Run_collect_def Let_def)

lemmas collect_fields = collect_TotalRequests collect_SuccessfulRequests collect_FailedRequests
  collect_StatusCodes collect_MinDuration collect_MaxDuration collect_totalDuration
  collect_TotalTime collect_AvgDuration

lemma map_incr_commute: "map_incr (map_incr m a) b = map_incr (map_incr m b) a"
  by (auto simp: map_incr_def fun_eq_iff)

lemma Run_collect_commute:
  "Run_collect a (Run_collect b s) = Run_collect b (Run_collect a s)"
proof (rule prod_eqI)
  show "fst (Run_collect a (Run_collect b s)) = fst (Run_collect b (Run_collect a s))"
  proof (rule Report.equality)
    show "MinDuration (fst (Run_collect a (Run_collect b s))) =
          MinDuration (fst (Run_collect b (Run_collect a s)))"
      by (simp add: collect_MinDuration smin_left_commute)
    show "MaxDuration (fst (Run_collect a (Run_collect b s))) =
          MaxDuration (fst (Run_collect b (Run_collect a s)))"
      by (simp add: collect_MaxDuration smax_left_commute)
    show "StatusCodes (fst (Run_collect a (Run_collect b s))) =
          StatusCodes (fst (Run_collect b (Run_collect a s)))"
      by (simp add: collect_StatusCodes map_incr_commute)
  qed (simp_all add: collect_fields)
  show "snd (Run_collect a (Run_collect b s)) = snd (Run_collect b (Run_collect a s))"
    by (simp add: collect_totalDuration)
qed

section \<open>Properties of the whole loop and of the returned report\<close>

lemma Run_collect_all_Nil: "Run_collect_all [] = (Report_init, 0)"
  by (simp add: Run_collect_all_def)

lemma Run_collect_all_snoc: "Run_collect_all (rs @ [r]) = Run_collect r (Run_collect_all rs)"
  by (simp add: Run_collect_all_def)

lemma Run_collect_all_mset:
  assumes "mset rs = mset rs'"
  shows "Run_collect_all rs = Run_collect_all rs'"
proof -
  have "fold Run_collect rs = fold Run_collect rs'"
    by (rule fold_multiset_equiv [OF _ assms]) (simp add: fun_eq_iff Run_collect_commute)
  then show ?thesis by (simp add: Run_collect_all_def)
qed

lemma Run_finalize_Inr:
  "Run_finalize s elapsed =
     Inr (if 0 <s SuccessfulRequests (fst s)
          then (fst s)\<lparr>TotalTime := elapsed,
                 AvgDuration := word_of_int (sint (snd s) sdiv sint (SuccessfulRequests (fst s)))\<rparr>
          else (fst s)\<lparr>TotalTime := elapsed\<rparr>)"
  by (cases s) (auto simp: Run_finalize_def go_div_def Let_def)

lemma Run_report_Inr:
  "Run_report rs elapsed =
     Inr (if 0 <s SuccessfulRequests (fst (Run_collect_all rs))
          then (fst (Run_collect_all rs))\<lparr>TotalTime := elapsed,
                 AvgDuration := word_of_int (sint (snd (Run_collect_all rs))
                    sdiv sint (SuccessfulRequests (fst (Run_collect_all rs))))\<rparr>
          else (fst (Run_collect_all rs))\<lparr>TotalTime := elapsed\<rparr>)"
  by (simp add: Run_report_def Run_finalize_Inr)

lemma Run_report_total: "\<exists>report. Run_report rs elapsed = Inr report"
  by (simp add: Run_report_Inr)

lemma Run_report_fields:
  assumes "Run_report rs elapsed = Inr report"
  shows "TotalRequests report = TotalRequests (fst (Run_collect_all rs))"
    and "SuccessfulRequests report = SuccessfulRequests (fst (Run_collect_all rs))"
    and "FailedRequests report = FailedRequests (fst (Run_collect_all rs))"
    and "StatusCodes report = StatusCodes (fst (Run_collect_all rs))"
    and "MinDuration report = MinDuration (fst (Run_collect_all rs))"
    and "MaxDuration report = MaxDuration (fst (Run_collect_all rs))"
    and "TotalTime report = elapsed"
  using assms by (auto simp: Run_report_Inr split: if_splits)

lemma all_TotalRequests: "TotalRequests (fst (Run_collect_all rs)) = of_nat (length rs)"
  by (induction rs rule: rev_induct)
     (simp_all add: Run_collect_all_Nil Run_collect_all_snoc collect_fields Report_init_def)

lemma all_SuccessfulRequests:
  "SuccessfulRequests (fst (Run_collect_all rs)) = of_nat (length (filter successful rs))"
  by (induction rs rule: rev_induct)
     (simp_all add: Run_collect_all_Nil Run_collect_all_snoc collect_fields Report_init_def)

lemma all_FailedRequests:
  "FailedRequests (fst (Run_collect_all rs)) =
     of_nat (length (filter (\<lambda>r. \<not> successful r) rs))"
  by (induction rs rule: rev_induct)
     (simp_all add: Run_collect_all_Nil Run_collect_all_snoc collect_fields Report_init_def)

lemma all_AvgDuration: "AvgDuration (fst (Run_collect_all rs)) = 0"
  by (induction rs rule: rev_induct)
     (simp_all add: Run_collect_all_Nil Run_collect_all_snoc collect_fields Report_init_def)

lemma sint_of_nat_small: "n < 2 ^ 63 \<Longrightarrow> sint (of_nat n :: 64 word) = int n"
  by (simp add: signed_of_nat signed_take_bit_int_eq_self)

lemma ok_results_Nil: "ok_results [] = []"
  by (simp add: ok_results_def)

lemma ok_results_snoc:
  "ok_results (rs @ [r]) = (if transport_error r then ok_results rs else ok_results rs @ [r])"
  by (simp add: ok_results_def)

lemma ok_codes_snoc:
  "ok_codes (rs @ [r]) = (if transport_error r then ok_codes rs else ok_codes rs @ [StatusCode r])"
  by (simp add: ok_codes_def ok_results_snoc)

lemma length_ok_codes:
  "length (ok_codes rs) + length (filter transport_error rs) = length rs"
  unfolding ok_codes_def ok_results_def
  using sum_length_filter_compl [of transport_error rs] by simp

lemma all_StatusCodes:
  "StatusCodes (fst (Run_collect_all rs)) k =
     (if k \<in> set (ok_codes rs) then Some (of_nat (count_list (ok_codes rs) k)) else None)"
proof (induction rs rule: rev_induct)
  case Nil
  show ?case
    by (simp add: Run_collect_all_Nil Report_init_def ok_codes_def ok_results_def)
next
  case (snoc r rs)
  show ?case
  proof (cases "transport_error r")
    case True
    then show ?thesis
      using snoc by (simp add: Run_collect_all_snoc collect_StatusCodes ok_codes_snoc)
  next
    case False
    have z: "k \<notin> set (ok_codes rs) \<Longrightarrow> count_list (ok_codes rs) k = 0"
      by (simp add: count_list_0_iff)
    from False show ?thesis
      using snoc z
      by (auto simp: Run_collect_all_snoc collect_StatusCodes ok_codes_snoc map_incr_def)
  qed
qed

lemma all_StatusCodes_dom: "dom (StatusCodes (fst (Run_collect_all rs))) = set (ok_codes rs)"
  by (auto simp: dom_def all_StatusCodes)

lemma all_StatusCodes_sum:
  "(\<Sum>k\<in>dom (StatusCodes (fst (Run_collect_all rs))).
       the (StatusCodes (fst (Run_collect_all rs)) k)) = of_nat (length (ok_codes rs))"
proof -
  have "(\<Sum>k\<in>set (ok_codes rs). the (StatusCodes (fst (Run_collect_all rs)) k))
      = (\<Sum>k\<in>set (ok_codes rs). (of_nat (count_list (ok_codes rs) k) :: go_int))"
    by (rule sum.cong) (simp_all add: all_StatusCodes)
  also have "\<dots> = of_nat (\<Sum>k\<in>set (ok_codes rs). count_list (ok_codes rs) k)"
    by simp
  also have "\<dots> = of_nat (length (ok_codes rs))"
    by (simp add: sum_count_set)
  finally show ?thesis by (simp add: all_StatusCodes_dom)
qed

lemma all_StatusCodes_sum_unat:
  assumes "length rs < 2 ^ 64"
  shows "(\<Sum>k\<in>dom (StatusCodes (fst (Run_collect_all rs))).
            unat (the (StatusCodes (fst (Run_collect_all rs)) k))) = length (ok_codes rs)"
proof -
  have le: "count_list (ok_codes rs) k < 2 ^ 64" for k
  proof -
    have "count_list (ok_codes rs) k \<le> length (ok_codes rs)" by (rule count_le_length)
    also have "\<dots> \<le> length rs" by (simp add: ok_codes_def ok_results_def)
    finally show ?thesis using assms by simp
  qed
  have "(\<Sum>k\<in>set (ok_codes rs). unat (the (StatusCodes (fst (Run_collect_all rs)) k)))
      = (\<Sum>k\<in>set (ok_codes rs). count_list (ok_codes rs) k)"
  proof (rule sum.cong)
    fix k assume "k \<in> set (ok_codes rs)"
    then show "unat (the (StatusCodes (fst (Run_collect_all rs)) k)) = count_list (ok_codes rs) k"
      using le [of k] by (simp add: all_StatusCodes unat_of_nat)
  qed simp
  also have "\<dots> = length (ok_codes rs)"
    by (simp add: sum_count_set)
  finally show ?thesis by (simp add: all_StatusCodes_dom)
qed

lemma all_stats_filter:
  "MinDuration (fst (Run_collect_all rs)) = MinDuration (fst (Run_collect_all (ok_results rs)))
   \<and> MaxDuration (fst (Run_collect_all rs)) = MaxDuration (fst (Run_collect_all (ok_results rs)))
   \<and> snd (Run_collect_all rs) = snd (Run_collect_all (ok_results rs))
   \<and> StatusCodes (fst (Run_collect_all rs)) = StatusCodes (fst (Run_collect_all (ok_results rs)))"
  by (induction rs rule: rev_induct)
     (simp_all add: ok_results_Nil ok_results_snoc Run_collect_all_snoc collect_fields)

lemma all_Min_le:
  "r \<in> set rs \<Longrightarrow> \<not> transport_error r \<Longrightarrow> MinDuration (fst (Run_collect_all rs)) <=s Duration r"
proof (induction rs rule: rev_induct)
  case Nil
  then show ?case by simp
next
  case (snoc x rs)
  show ?case
  proof (cases "r = x")
    case True
    with snoc.prems show ?thesis
      by (simp add: Run_collect_all_snoc collect_MinDuration smin_sle1)
  next
    case False
    with snoc have "MinDuration (fst (Run_collect_all rs)) <=s Duration r" by simp
    moreover have "MinDuration (fst (Run_collect_all (rs @ [x])))
        <=s MinDuration (fst (Run_collect_all rs))"
      by (simp add: Run_collect_all_snoc collect_MinDuration smin_sle2)
    ultimately show ?thesis by (rule signed.order_trans [rotated])
  qed
qed

lemma all_Max_ge:
  "r \<in> set rs \<Longrightarrow> \<not> transport_error r \<Longrightarrow> Duration r <=s MaxDuration (fst (Run_collect_all rs))"
proof (induction rs rule: rev_induct)
  case Nil
  then show ?case by simp
next
  case (snoc x rs)
  show ?case
  proof (cases "r = x")
    case True
    with snoc.prems show ?thesis
      by (simp add: Run_collect_all_snoc collect_MaxDuration smax_sge1)
  next
    case False
    with snoc have "Duration r <=s MaxDuration (fst (Run_collect_all rs))" by simp
    moreover have "MaxDuration (fst (Run_collect_all rs))
        <=s MaxDuration (fst (Run_collect_all (rs @ [x])))"
      by (simp add: Run_collect_all_snoc collect_MaxDuration smax_sge2)
    ultimately show ?thesis by (rule signed.order_trans)
  qed
qed

lemma all_errors_stats:
  "\<forall>r\<in>set rs. transport_error r \<Longrightarrow>
     MinDuration (fst (Run_collect_all rs)) = MaxDurationSentinel
     \<and> MaxDuration (fst (Run_collect_all rs)) = 0
     \<and> snd (Run_collect_all rs) = 0
     \<and> StatusCodes (fst (Run_collect_all rs)) = Map.empty"
  by (induction rs rule: rev_induct)
     (simp_all add: Run_collect_all_Nil Run_collect_all_snoc collect_fields Report_init_def)

section \<open>Properties of the goroutine system\<close>
































subsection \<open>The state and the events of the schedule\<close>






















section \<open>Claims about the aggregation\<close>

text \<open>
  C1 (as amended): the duration statistics are touched only by outcomes without a
  transport error, whatever their status code. An outcome with a transport error leaves
  \<open>MinDuration\<close>, \<open>MaxDuration\<close> and \<open>totalDuration\<close> as they are; every other
  outcome, 200 or not, is folded into \<open>MinDuration\<close> and \<open>MaxDuration\<close>. So for every
  sequence of outcomes the three values are those of the subsequence without transport
  errors, and the reported minimum and maximum bound the duration of each of its members.
\<close>

theorem Run_duration_stats_skip_transport_errors:
  "MinDuration (fst (Run_collect r s)) =
     (if transport_error r then MinDuration (fst s) else smin (Duration r) (MinDuration (fst s)))
   \<and> MaxDuration (fst (Run_collect r s)) =
     (if transport_error r then MaxDuration (fst s) else smax (Duration r) (MaxDuration (fst s)))
   \<and> (transport_error e \<longrightarrow> snd (Run_collect e s) = snd s)
   \<and> MinDuration (fst (Run_collect_all rs)) = MinDuration (fst (Run_collect_all (ok_results rs)))
   \<and> MaxDuration (fst (Run_collect_all rs)) = MaxDuration (fst (Run_collect_all (ok_results rs)))
   \<and> snd (Run_collect_all rs) = snd (Run_collect_all (ok_results rs))
   \<and> (\<exists>report. Run_report rs elapsed = Inr report
        \<and> MinDuration report = MinDuration (fst (Run_collect_all (ok_results rs)))
        \<and> MaxDuration report = MaxDuration (fst (Run_collect_all (ok_results rs)))
        \<and> (\<forall>x\<in>set (ok_results rs). MinDuration report <=s Duration x
               \<and> Duration x <=s MaxDuration report))"
proof -
  obtain report where rep: "Run_report rs elapsed = Inr report"
    using Run_report_total by blast
  have mn: "MinDuration report = MinDuration (fst (Run_collect_all rs))"
    and mx: "MaxDuration report = MaxDuration (fst (Run_collect_all rs))"
    using Run_report_fields [OF rep] by simp_all
  have bounds: "\<forall>x\<in>set (ok_results rs). MinDuration report <=s Duration x
      \<and> Duration x <=s MaxDuration report"
    unfolding mn mx by (auto simp: ok_results_def intro: all_Min_le all_Max_ge)
  have step: "MinDuration (fst (Run_collect r s)) =
       (if transport_error r then MinDuration (fst s) else smin (Duration r) (MinDuration (fst s)))"
     "MaxDuration (fst (Run_collect r s)) =
       (if transport_error r then MaxDuration (fst s) else smax (Duration r) (MaxDuration (fst s)))"
     "transport_error e \<longrightarrow> snd (Run_collect e s) = snd s"
    by (simp_all add: collect_fields)
  from rep mn mx bounds step all_stats_filter [of rs] show ?thesis
    by (intro conjI exI [of _ report]) simp_all
qed

theorem Run_duration_stats_skip_transport_errors_witness:
  "transport_error \<lparr>StatusCode = 0, Duration = 0, Error = Some ''timeout''\<rparr>
   \<and> snd (Run_collect \<lparr>StatusCode = 0, Duration = 0, Error = Some ''timeout''\<rparr> (Report_init, 3)) = 3
   \<and> \<lparr>StatusCode = 404, Duration = 5, Error = None\<rparr>
      \<in> set (ok_results [\<lparr>StatusCode = 0, Duration = 0, Error = Some ''timeout''\<rparr>,
                         \<lparr>StatusCode = 404, Duration = 5, Error = None\<rparr>])
   \<and> (\<exists>report. Run_report [\<lparr>StatusCode = 0, Duration = 0, Error = Some ''timeout''\<rparr>,
                         \<lparr>StatusCode = 404, Duration = 5, Error = None\<rparr>] 7 = Inr report
        \<and> MinDuration report <=s 5 \<and> 5 <=s MaxDuration report)"
  using Run_duration_stats_skip_transport_errors
    [of "\<lparr>StatusCode = 404, Duration = 5, Error = None\<rparr>" "(Report_init, 3)"
        "\<lparr>StatusCode = 0, Duration = 0, Error = Some ''timeout''\<rparr>"
        "[\<lparr>StatusCode = 0, Duration = 0, Error = Some ''timeout''\<rparr>,
          \<lparr>StatusCode = 404, Duration = 5, Error = None\<rparr>]" 7]
  by (auto simp: ok_results_def transport_error_def)

text \<open>
  The statement with "only by successful outcomes" fails: a 404 response that took 5ns,
  received first, changes the minimum, the maximum and the running total.
\<close>

theorem Run_duration_stats_counterexample:
  "Error \<lparr>StatusCode = 404, Duration = 5, Error = None\<rparr> = None
   \<and> StatusCode \<lparr>StatusCode = 404, Duration = 5, Error = None\<rparr> \<noteq> 200
   \<and> MinDuration (fst (Run_collect \<lparr>StatusCode = 404, Duration = 5, Error = None\<rparr> (Report_init, 0)))
         \<noteq> MinDuration Report_init
   \<and> MaxDuration (fst (Run_collect \<lparr>StatusCode = 404, Duration = 5, Error = None\<rparr> (Report_init, 0)))
         \<noteq> MaxDuration Report_init
   \<and> snd (Run_collect \<lparr>StatusCode = 404, Duration = 5, Error = None\<rparr> (Report_init, 0)) \<noteq> 0"
  by (simp add: collect_fields transport_error_def smin_def smax_def Report_init_def
      MaxDurationSentinel_def word_sless_alt)

text \<open>
  C2: for every sequence of outcomes the returned report has
  \<open>SuccessfulRequests + FailedRequests = TotalRequests\<close>, each iteration adds one to
  exactly one of the two counters, and the three counters are the number of outcomes with
  status 200 and no error, the number of all others, and the number of outcomes. Below
  \<open>2 ^ 63\<close> outcomes (any number a Go \<open>int\<close> loop bound allows) nothing wraps.
\<close>

theorem Run_successful_plus_failed:
  "(\<exists>report. Run_report rs elapsed = Inr report
     \<and> SuccessfulRequests report + FailedRequests report = TotalRequests report
     \<and> TotalRequests report = of_nat (length rs)
     \<and> SuccessfulRequests report = of_nat (length (filter successful rs))
     \<and> FailedRequests report = of_nat (length (filter (\<lambda>r. \<not> successful r) rs))
     \<and> (length rs < 2 ^ 63 \<longrightarrow>
          sint (SuccessfulRequests report) + sint (FailedRequests report) = int (length rs)
          \<and> sint (TotalRequests report) = int (length rs)))
   \<and> ((SuccessfulRequests (fst (Run_collect r s)) = SuccessfulRequests (fst s) + 1
         \<and> FailedRequests (fst (Run_collect r s)) = FailedRequests (fst s))
      \<or> (SuccessfulRequests (fst (Run_collect r s)) = SuccessfulRequests (fst s)
         \<and> FailedRequests (fst (Run_collect r s)) = FailedRequests (fst s) + 1))"
proof -
  obtain report where rep: "Run_report rs elapsed = Inr report"
    using Run_report_total by blast
  have T: "TotalRequests report = of_nat (length rs)"
    by (simp add: Run_report_fields(1) [OF rep] all_TotalRequests)
  have S: "SuccessfulRequests report = of_nat (length (filter successful rs))"
    by (simp add: Run_report_fields(2) [OF rep] all_SuccessfulRequests)
  have F: "FailedRequests report = of_nat (length (filter (\<lambda>r. \<not> successful r) rs))"
    by (simp add: Run_report_fields(3) [OF rep] all_FailedRequests)
  have len: "length (filter successful rs) + length (filter (\<lambda>r. \<not> successful r) rs) = length rs"
    by (rule sum_length_filter_compl)
  have sum: "SuccessfulRequests report + FailedRequests report = TotalRequests report"
    unfolding S F T by (simp flip: of_nat_add add: len)
  have small: "sint (SuccessfulRequests report) + sint (FailedRequests report) = int (length rs)
      \<and> sint (TotalRequests report) = int (length rs)" if "length rs < 2 ^ 63"
  proof -
    have "length (filter successful rs) < 2 ^ 63"
      "length (filter (\<lambda>r. \<not> successful r) rs) < 2 ^ 63"
      using that len by linarith+
    then show ?thesis
      unfolding S F T using that len by (simp add: sint_of_nat_small)
  qed
  have one: "(SuccessfulRequests (fst (Run_collect r s)) = SuccessfulRequests (fst s) + 1
         \<and> FailedRequests (fst (Run_collect r s)) = FailedRequests (fst s))
      \<or> (SuccessfulRequests (fst (Run_collect r s)) = SuccessfulRequests (fst s)
         \<and> FailedRequests (fst (Run_collect r s)) = FailedRequests (fst s) + 1)"
    by (simp add: collect_fields)
  from rep sum T S F small one show ?thesis by blast
qed

theorem Run_successful_plus_failed_witness:
  "length [\<lparr>StatusCode = 200, Duration = 10, Error = None\<rparr>,
           \<lparr>StatusCode = 404, Duration = 100, Error = None\<rparr>,
           \<lparr>StatusCode = 0, Duration = 0, Error = Some ''timeout''\<rparr>] < (2::nat) ^ 63
   \<and> (\<exists>report. Run_report [\<lparr>StatusCode = 200, Duration = 10, Error = None\<rparr>,
           \<lparr>StatusCode = 404, Duration = 100, Error = None\<rparr>,
           \<lparr>StatusCode = 0, Duration = 0, Error = Some ''timeout''\<rparr>] 7 = Inr report
     \<and> SuccessfulRequests report + FailedRequests report = TotalRequests report
     \<and> TotalRequests report = 3 \<and> SuccessfulRequests report = 1 \<and> FailedRequests report = 2
     \<and> sint (TotalRequests report) = 3)"
  using Run_successful_plus_failed [of "[\<lparr>StatusCode = 200, Duration = 10, Error = None\<rparr>,
           \<lparr>StatusCode = 404, Duration = 100, Error = None\<rparr>,
           \<lparr>StatusCode = 0, Duration = 0, Error = Some ''timeout''\<rparr>]" 7
        "\<lparr>StatusCode = 200, Duration = 10, Error = None\<rparr>" "(Report_init, 0)"]
  by (auto simp: successful_def)

text \<open>
  C3: for every sequence of outcomes the counts of the status-code histogram of the
  returned report add up to \<open>TotalRequests\<close> minus the number of outcomes with a
  transport error. An outcome with a transport error leaves the map as it is, so the
  histogram is the one of the outcomes without transport error.
\<close>

theorem Run_histogram_sum:
  "(\<exists>report. Run_report rs elapsed = Inr report
     \<and> finite (dom (StatusCodes report))
     \<and> (\<Sum>k\<in>dom (StatusCodes report). the (StatusCodes report k))
          = TotalRequests report - of_nat (length (filter transport_error rs))
     \<and> StatusCodes report = StatusCodes (fst (Run_collect_all (ok_results rs)))
     \<and> (length rs < 2 ^ 63 \<longrightarrow>
          (\<Sum>k\<in>dom (StatusCodes report). unat (the (StatusCodes report k)))
             + length (filter transport_error rs) = length rs
          \<and> unat (TotalRequests report) = length rs))
   \<and> StatusCodes (fst (Run_collect r s)) =
       (if transport_error r then StatusCodes (fst s)
        else map_incr (StatusCodes (fst s)) (StatusCode r))"
proof -
  obtain report where rep: "Run_report rs elapsed = Inr report"
    using Run_report_total by blast
  have h: "StatusCodes report = StatusCodes (fst (Run_collect_all rs))"
    and T: "TotalRequests report = of_nat (length rs)"
    using Run_report_fields [OF rep] by (simp_all add: all_TotalRequests)
  have fin: "finite (dom (StatusCodes report))"
    by (simp add: h all_StatusCodes_dom)
  have "of_nat (length rs) = (of_nat (length (ok_codes rs)) :: go_int)
      + of_nat (length (filter transport_error rs))"
    by (simp flip: of_nat_add add: length_ok_codes)
  then have sum: "(\<Sum>k\<in>dom (StatusCodes report). the (StatusCodes report k))
      = TotalRequests report - of_nat (length (filter transport_error rs))"
    by (simp add: h T all_StatusCodes_sum)
  have filt: "StatusCodes report = StatusCodes (fst (Run_collect_all (ok_results rs)))"
    using all_stats_filter [of rs] by (simp add: h)
  have small: "(\<Sum>k\<in>dom (StatusCodes report). unat (the (StatusCodes report k)))
             + length (filter transport_error rs) = length rs
          \<and> unat (TotalRequests report) = length rs" if "length rs < 2 ^ 63"
  proof -
    from that have lt: "length rs < 2 ^ 64" by simp
    then show ?thesis
      by (simp add: h T all_StatusCodes_sum_unat length_ok_codes unat_of_nat)
  qed
  have step: "StatusCodes (fst (Run_collect r s)) =
       (if transport_error r then StatusCodes (fst s)
        else map_incr (StatusCodes (fst s)) (StatusCode r))"
    by (rule collect_StatusCodes)
  from rep fin sum filt small step show ?thesis by blast
qed

theorem Run_histogram_sum_witness:
  "length [\<lparr>StatusCode = 200, Duration = 10, Error = None\<rparr>,
           \<lparr>StatusCode = 0, Duration = 0, Error = Some ''timeout''\<rparr>,
           \<lparr>StatusCode = 404, Duration = 100, Error = None\<rparr>,
           \<lparr>StatusCode = 200, Duration = 20, Error = None\<rparr>] < (2::nat) ^ 63
   \<and> (\<exists>report. Run_report [\<lparr>StatusCode = 200, Duration = 10, Error = None\<rparr>,
           \<lparr>StatusCode = 0, Duration = 0, Error = Some ''timeout''\<rparr>,
           \<lparr>StatusCode = 404, Duration = 100, Error = None\<rparr>,
           \<lparr>StatusCode = 200, Duration = 20, Error = None\<rparr>] 7 = Inr report
     \<and> (\<Sum>k\<in>dom (StatusCodes report). the (StatusCodes report k)) = TotalRequests report - 1
     \<and> (\<Sum>k\<in>dom (StatusCodes report). unat (the (StatusCodes report k))) + 1 = 4)"
  using Run_histogram_sum [of "[\<lparr>StatusCode = 200, Duration = 10, Error = None\<rparr>,
           \<lparr>StatusCode = 0, Duration = 0, Error = Some ''timeout''\<rparr>,
           \<lparr>StatusCode = 404, Duration = 100, Error = None\<rparr>,
           \<lparr>StatusCode = 200, Duration = 20, Error = None\<rparr>]" 7
        "\<lparr>StatusCode = 200, Duration = 10, Error = None\<rparr>" "(Report_init, 0)"]
  by (auto simp: transport_error_def)

text \<open>
  C4: finalization never divides by zero. \<open>Run_finalize\<close> and \<open>Run_report\<close> always
  return a report (never the \<open>DivideByZero\<close> panic); without the guard
  \<open>SuccessfulRequests > 0\<close> the result is the accumulated report with only \<open>TotalTime\<close>
  set, whatever \<open>totalDuration\<close> holds; and for every sequence of outcomes with no
  successful one \<open>AvgDuration\<close> is its zero value.
\<close>

theorem Run_avg_zero_without_success:
  "(\<exists>report. Run_finalize s elapsed = Inr report
      \<and> (\<not> 0 <s SuccessfulRequests (fst s) \<longrightarrow> report = (fst s)\<lparr>TotalTime := elapsed\<rparr>))
   \<and> (\<exists>report. Run_report rs elapsed = Inr report
      \<and> (SuccessfulRequests report = 0 \<longrightarrow> AvgDuration report = 0)
      \<and> (filter successful rs = [] \<longrightarrow> SuccessfulRequests report = 0 \<and> AvgDuration report = 0)
      \<and> (AvgDuration report \<noteq> 0 \<longrightarrow> 0 <s SuccessfulRequests report))"
proof -
  have fin: "\<exists>report. Run_finalize s elapsed = Inr report
      \<and> (\<not> 0 <s SuccessfulRequests (fst s) \<longrightarrow> report = (fst s)\<lparr>TotalTime := elapsed\<rparr>)"
    by (simp add: Run_finalize_Inr)
  obtain report where rep: "Run_report rs elapsed = Inr report"
    using Run_report_total by blast
  have S: "SuccessfulRequests report = of_nat (length (filter successful rs))"
    by (simp add: Run_report_fields(2) [OF rep] all_SuccessfulRequests)
  have avg: "AvgDuration report = 0" if "\<not> 0 <s SuccessfulRequests report"
    using rep that by (auto simp: Run_report_Inr all_AvgDuration split: if_splits)
  have a: "SuccessfulRequests report = 0 \<longrightarrow> AvgDuration report = 0"
    using avg by auto
  have b: "filter successful rs = [] \<longrightarrow> SuccessfulRequests report = 0 \<and> AvgDuration report = 0"
    using avg S by auto
  have c: "AvgDuration report \<noteq> 0 \<longrightarrow> 0 <s SuccessfulRequests report"
    using avg by auto
  from fin rep a b c show ?thesis by blast
qed

theorem Run_avg_zero_without_success_witness:
  "\<not> 0 <s SuccessfulRequests (fst (Report_init, 5 :: duration))
   \<and> Run_finalize (Report_init, 5) 7 = Inr (Report_init\<lparr>TotalTime := 7\<rparr>)
   \<and> filter successful [\<lparr>StatusCode = 404, Duration = 5, Error = None\<rparr>,
                        \<lparr>StatusCode = 0, Duration = 0, Error = Some ''timeout''\<rparr>] = []
   \<and> (\<exists>report. Run_report [\<lparr>StatusCode = 404, Duration = 5, Error = None\<rparr>,
                        \<lparr>StatusCode = 0, Duration = 0, Error = Some ''timeout''\<rparr>] 7 = Inr report
        \<and> SuccessfulRequests report = 0 \<and> AvgDuration report = 0)"
  using Run_avg_zero_without_success
    [of "(Report_init, 5)" 7 "[\<lparr>StatusCode = 404, Duration = 5, Error = None\<rparr>,
                        \<lparr>StatusCode = 0, Duration = 0, Error = Some ''timeout''\<rparr>]"]
  by (auto simp: successful_def Report_init_def)

text \<open>
  C5: \<open>MinDuration <= AvgDuration <= MaxDuration\<close> whenever \<open>SuccessfulRequests > 0\<close>
  does not hold of the code. \<open>totalDuration\<close> adds up the durations of all outcomes
  without transport error, 200 or not (line 108), and line 123 divides it by the number of
  200 responses alone. With a 200 response of 10ns and a 404 response of 100ns the report
  has one successful request, \<open>MaxDuration = 100\<close> and \<open>AvgDuration = 110\<close>.
\<close>

theorem Run_avg_exceeds_max:
  "Run_report [\<lparr>StatusCode = 200, Duration = 10, Error = None\<rparr>,
               \<lparr>StatusCode = 404, Duration = 100, Error = None\<rparr>] 7 =
     Inr \<lparr>TotalRequests = 2, SuccessfulRequests = 1, FailedRequests = 1, TotalTime = 7,
          StatusCodes = [200 \<mapsto> 1, 404 \<mapsto> 1], MinDuration = 10, MaxDuration = 100,
          AvgDuration = 110\<rparr>
   \<and> (0 :: go_int) <s 1 \<and> \<not> ((110 :: duration) <=s 100)"
  by (simp add: Run_report_def Run_collect_all_def Run_collect_def Run_finalize_def
      Report_init_def map_incr_def MaxDurationSentinel_def Let_def go_div_def
      word_sless_alt word_sle_eq)

text \<open>
  C8 (as amended): \<open>MinDuration\<close> starts at the largest duration and \<open>MaxDuration\<close> at
  zero, and for every sequence of outcomes that all carry a transport error the returned
  report still has \<open>MinDuration\<close> at that sentinel and \<open>MaxDuration\<close> at zero.
\<close>

theorem Run_min_max_stay_without_response:
  "MinDuration Report_init = MaxDurationSentinel
   \<and> sint MaxDurationSentinel = 2 ^ 63 - 1
   \<and> (\<forall>d :: duration. d <=s MaxDurationSentinel)
   \<and> MaxDuration Report_init = 0
   \<and> ((\<forall>r\<in>set rs. transport_error r) \<longrightarrow>
        (\<exists>report. Run_report rs elapsed = Inr report
           \<and> MinDuration report = MaxDurationSentinel \<and> MaxDuration report = 0))"
proof -
  have s: "sint MaxDurationSentinel = 2 ^ 63 - 1"
    by (simp add: MaxDurationSentinel_def)
  have top: "d <=s MaxDurationSentinel" for d :: duration
    using sint_lt [of d] by (simp add: word_sle_eq s)
  obtain report where rep: "Run_report rs elapsed = Inr report"
    using Run_report_total by blast
  have "MinDuration report = MaxDurationSentinel \<and> MaxDuration report = 0"
    if "\<forall>r\<in>set rs. transport_error r"
    using all_errors_stats [OF that] Run_report_fields [OF rep] by simp
  with rep s top show ?thesis
    by (auto simp: Report_init_def)
qed

theorem Run_min_max_stay_without_response_witness:
  "transport_error \<lparr>StatusCode = 0, Duration = 0, Error = Some ''timeout''\<rparr>
   \<and> transport_error \<lparr>StatusCode = 0, Duration = 0, Error = Some ''refused''\<rparr>
   \<and> (\<exists>report. Run_report [\<lparr>StatusCode = 0, Duration = 0, Error = Some ''timeout''\<rparr>,
                          \<lparr>StatusCode = 0, Duration = 0, Error = Some ''refused''\<rparr>] 7 = Inr report
        \<and> MinDuration report = MaxDurationSentinel \<and> MaxDuration report = 0)"
  using Run_min_max_stay_without_response
    [of "[\<lparr>StatusCode = 0, Duration = 0, Error = Some ''timeout''\<rparr>,
          \<lparr>StatusCode = 0, Duration = 0, Error = Some ''refused''\<rparr>]" 7]
  by (simp add: transport_error_def)

text \<open>
  The statement with "zero outcomes are successful" fails: a single 404 response of 5ns is
  a sequence without successful outcome, and the report has \<open>MinDuration = MaxDuration = 5\<close>.
\<close>

theorem Run_min_max_counterexample:
  "filter successful [\<lparr>StatusCode = 404, Duration = 5, Error = None\<rparr>] = []
   \<and> Run_report [\<lparr>StatusCode = 404, Duration = 5, Error = None\<rparr>] 7 =
       Inr \<lparr>TotalRequests = 1, SuccessfulRequests = 0, FailedRequests = 1, TotalTime = 7,
            StatusCodes = [404 \<mapsto> 1], MinDuration = 5, MaxDuration = 5, AvgDuration = 0\<rparr>
   \<and> (5 :: duration) \<noteq> MaxDurationSentinel \<and> (5 :: duration) \<noteq> 0"
  by (simp add: Run_report_def Run_collect_all_def Run_collect_def Run_finalize_def
      Report_init_def map_incr_def MaxDurationSentinel_def Let_def word_sless_alt
      successful_def)

text \<open>
  C9: the aggregation does not depend on the order of arrival: two sequences with the
  same outcomes the same number of times (each a permutation of the other) give the same
  report, in every field.
\<close>

theorem Run_report_order_independent:
  "mset rs = mset rs' \<Longrightarrow> Run_report rs elapsed = Run_report rs' elapsed"
  using Run_collect_all_mset [of rs rs'] by (simp add: Run_report_def)

theorem Run_report_order_independent_witness:
  "mset [\<lparr>StatusCode = 200, Duration = 10, Error = None\<rparr>,
         \<lparr>StatusCode = 0, Duration = 0, Error = Some ''timeout''\<rparr>,
         \<lparr>StatusCode = 404, Duration = 100, Error = None\<rparr>]
     = mset [\<lparr>StatusCode = 404, Duration = 100, Error = None\<rparr>,
             \<lparr>StatusCode = 200, Duration = 10, Error = None\<rparr>,
             \<lparr>StatusCode = 0, Duration = 0, Error = Some ''timeout''\<rparr>]
   \<and> Run_report [\<lparr>StatusCode = 200, Duration = 10, Error = None\<rparr>,
         \<lparr>StatusCode = 0, Duration = 0, Error = Some ''timeout''\<rparr>,
         \<lparr>StatusCode = 404, Duration = 100, Error = None\<rparr>] 7
     = Run_report [\<lparr>StatusCode = 404, Duration = 100, Error = None\<rparr>,
             \<lparr>StatusCode = 200, Duration = 10, Error = None\<rparr>,
             \<lparr>StatusCode = 0, Duration = 0, Error = Some ''timeout''\<rparr>] 7"
proof -
  have m: "mset [\<lparr>StatusCode = 200, Duration = 10, Error = None\<rparr>,
         \<lparr>StatusCode = 0, Duration = 0, Error = Some ''timeout''\<rparr>,
         \<lparr>StatusCode = 404, Duration = 100, Error = None\<rparr>]
     = mset [\<lparr>StatusCode = 404, Duration = 100, Error = None\<rparr>,
             \<lparr>StatusCode = 200, Duration = 10, Error = None\<rparr>,
             \<lparr>StatusCode = 0, Duration = 0, Error = Some ''timeout''\<rparr>]"
    by simp
  show ?thesis
    by (rule conjI [OF m Run_report_order_independent [OF m]])
qed

section \<open>Claims about the worker\<close>

text \<open>
  C10: the outcome a worker emits for a transport failure carries the error, a zero
  \<open>StatusCode\<close> and a zero \<open>Duration\<close>, whatever elapsed time was measured; an emitted
  outcome has a transport error exactly when \<open>Get\<close> failed. Collecting such an outcome
  adds one to \<open>TotalRequests\<close> and \<open>FailedRequests\<close> and changes nothing else: no
  duration statistic, no histogram entry.
\<close>

theorem Run_worker_outcome_transport_failure:
  "Run_worker_outcome (Inl err) measured = \<lparr>StatusCode = 0, Duration = 0, Error = Some err\<rparr>
   \<and> transport_error (Run_worker_outcome got measured) = isl got
   \<and> (transport_error (Run_worker_outcome got measured) \<longrightarrow>
        StatusCode (Run_worker_outcome got measured) = 0
        \<and> Duration (Run_worker_outcome got measured) = 0)
   \<and> Run_collect (Run_worker_outcome (Inl err) measured) s =
       ((fst s)\<lparr>TotalRequests := TotalRequests (fst s) + 1,
                FailedRequests := FailedRequests (fst s) + 1\<rparr>, snd s)"
  by (cases got; cases s)
     (simp_all add: Run_worker_outcome_def Result_zero_def transport_error_def
        Run_collect_def Let_def)

theorem Run_worker_outcome_transport_failure_witness:
  "transport_error (Run_worker_outcome (Inl ''timeout'') 10000000000)
   \<and> Run_worker_outcome (Inl ''timeout'') 10000000000
       = \<lparr>StatusCode = 0, Duration = 0, Error = Some ''timeout''\<rparr>
   \<and> Run_collect (Run_worker_outcome (Inl ''timeout'') 10000000000) (Report_init, 0)
       = (Report_init\<lparr>TotalRequests := 1, FailedRequests := 1\<rparr>, 0)"
  using Run_worker_outcome_transport_failure
    [of "''timeout''" 10000000000 "Inl ''timeout''" "(Report_init, 0)"]
  by (auto simp: Report_init_def)

section \<open>Claims about the goroutine system and main\<close>







end
